theory Spec2Isabelle
  imports Main "HOL-Library.Multiset"
begin

section \<open>The chat store of the financial chatbot service (src/main.py)\<close>

text \<open>
  The service keeps its state in three relational tables: \<open>users\<close> (owned by another
  system, only read here), \<open>chats\<close> and \<open>chat_messages\<close>. Every handler talks to the
  store through \<open>execute_query\<close>, one committed statement per call, so a handler is a
  sequence of single statements on the store and the store after a handler that raised
  is the store after its last successful statement.

  Conventions of the embedding:
  \<^item> a table is the list of its rows in insertion order; rows are never deleted;
  \<^item> a timestamp (\<open>datetime.now()\<close> formatted with microseconds, stored in a
    \<open>datetime(6)\<close> column) is the number of microseconds it denotes;
  \<^item> a \<open>uuid.uuid4()\<close> result is a string; the two calls a handler makes are the
    fields \<open>uuid_1\<close> and \<open>uuid_2\<close> of the environment, in call order;
  \<^item> a \<open>user_id\<close> taken from a JSON body is \<open>None\<close> for an absent key or JSON
    \<open>null\<close> and \<open>Some n\<close> for the integer \<open>n\<close>; Python's \<open>not user_id\<close> holds for
    \<open>None\<close> and for \<open>Some 0\<close>;
  \<^item> a \<open>user_id\<close> taken from the query string is a Python string: \<open>None\<close> stands for
    an absent or empty value (both falsy), \<open>Some n\<close> for the decimal numeral of \<open>n\<close>
    (a non-empty string, truthy also for \<open>n = 0\<close>), which the store compares with the
    \<open>bigint\<close> column by value;
  \<^item> the body of a POST request is a JSON object, its \<open>message\<close> a string or absent;
  \<^item> the store is reachable: a statement fails only on a key constraint of the schema
    (\<open>setup_chat_schema\<close>), as \<open>IntegrityError\<close>;
  \<^item> \<open>initialize_db_if_needed\<close> (create the tables if they do not exist, errors
    swallowed) and the \<open>print\<close> calls do not touch the rows and are left out.
\<close>

subsection \<open>Schema\<close>

type_synonym uuid = string
type_synonym timestamp = nat

text \<open>Table \<open>chats\<close>.\<close>

record chat =
  chat_id :: uuid
  user_id :: int
  title :: string
  created_at :: timestamp
  updated_at :: timestamp
  is_active :: bool

text \<open>
  Table \<open>chat_messages\<close>. Its columns \<open>chat_id\<close> and \<open>created_at\<close> are the fields
  \<open>msg_chat_id\<close> and \<open>msg_created_at\<close>, since a field name belongs to one record.
\<close>

record chat_message =
  message_id :: uuid
  msg_chat_id :: uuid
  content :: string
  is_user_message :: bool
  msg_created_at :: timestamp

record db =
  users :: "int set"
  chats :: "chat list"
  chat_messages :: "chat_message list"

subsection \<open>Environment of a request\<close>

datatype role = System | User | Assistant

text \<open>
  What a handler reads from outside the store: the clock, the UUID generator, the
  serialised financial context (\<open>json.dumps(fetch_user_data(user_id))\<close>, a read of
  tables of another system), the completion service (\<open>None\<close> when anything inside the
  \<open>try\<close> block raises) and the order the SQL engine gives to rows whose \<open>ORDER BY\<close>
  keys are equal, which SQL leaves open (\<open>tie_msg\<close>, \<open>tie_chat\<close>: smaller first).
\<close>

record env =
  now :: timestamp
  uuid_1 :: uuid
  uuid_2 :: uuid
  user_data :: "int option \<Rightarrow> string"
  complete :: "(role \<times> string) list \<Rightarrow> string option"
  tie_msg :: "chat_message \<Rightarrow> nat"
  tie_chat :: "chat \<Rightarrow> nat"

subsection \<open>Responses\<close>

datatype exn = IntegrityError

text \<open>Rows of the two listing queries, with the columns their \<open>SELECT\<close> names.\<close>

record chat_listing =
  l_chat_id :: uuid
  l_title :: string
  l_created_at :: timestamp
  l_updated_at :: timestamp
  l_is_active :: bool
  last_message :: "string option"

record history_row =
  h_message_id :: uuid
  h_content :: string
  h_is_user_message :: bool
  h_created_at :: timestamp

datatype body =
    Error string
  | Started uuid string
  | Reply uuid string
  | Ended
  | Chats "chat_listing list"
  | History uuid string bool "history_row list"

type_synonym response = "nat \<times> body"

text \<open>A handler returns its response, or the exception that escaped it, and the store.\<close>

type_synonym outcome = "(exn + response) \<times> db"

subsection \<open>SQL statements\<close>

text \<open>\<open>cursor.fetchone()\<close>: the first row of the result, \<open>None\<close> if there is none.\<close>

definition fetchone :: "'a list \<Rightarrow> 'a option" where
  "fetchone rows = (case rows of [] \<Rightarrow> None | r # _ \<Rightarrow> Some r)"

text \<open>
  \<open>column = %s\<close> on a \<open>bigint\<close> column: a comparison with \<open>NULL\<close> (Python \<open>None\<close>) is
  never true.
\<close>

definition sql_eq :: "int \<Rightarrow> int option \<Rightarrow> bool" where
  "sql_eq n p = (case p of None \<Rightarrow> False | Some m \<Rightarrow> n = m)"

text \<open>
  \<open>ORDER BY key ASC\<close> and \<open>ORDER BY key DESC\<close>: rows with equal keys come in the
  order the engine chooses, given by \<open>tie\<close>.
\<close>

definition order_by_asc :: "('a \<Rightarrow> nat) \<Rightarrow> ('a \<Rightarrow> nat) \<Rightarrow> 'a list \<Rightarrow> 'a list" where
  "order_by_asc tie key rows = sort_key key (sort_key tie rows)"

definition order_by_desc :: "('a \<Rightarrow> nat) \<Rightarrow> ('a \<Rightarrow> nat) \<Rightarrow> 'a list \<Rightarrow> 'a list" where
  "order_by_desc tie key rows = rev (sort_key key (rev (sort_key tie rows)))"

text \<open>\<open>SELECT id FROM users WHERE id = %s\<close>, \<open>fetchone\<close>.\<close>

definition select_user :: "db \<Rightarrow> int \<Rightarrow> int option" where
  "select_user d u = (if u \<in> users d then Some u else None)"

text \<open>
  \<open>INSERT INTO chats (chat_id, user_id, title, created_at, updated_at, is_active)\<close>:
  \<open>chat_id\<close> is the primary key and \<open>user_id\<close> references \<open>users.id\<close>.
\<close>

definition insert_chat :: "chat \<Rightarrow> db \<Rightarrow> exn + db" where
  "insert_chat c d =
     (if chat_id c \<in> set (map chat_id (chats d)) \<or> user_id c \<notin> users d
      then Inl IntegrityError
      else Inr (d\<lparr>chats := chats d @ [c]\<rparr>))"

text \<open>
  \<open>INSERT INTO chat_messages (message_id, chat_id, content, is_user_message, created_at)\<close>:
  \<open>message_id\<close> is the primary key and \<open>chat_id\<close> references \<open>chats.chat_id\<close>.
\<close>

definition insert_message :: "chat_message \<Rightarrow> db \<Rightarrow> exn + db" where
  "insert_message m d =
     (if message_id m \<in> set (map message_id (chat_messages d))
         \<or> msg_chat_id m \<notin> set (map chat_id (chats d))
      then Inl IntegrityError
      else Inr (d\<lparr>chat_messages := chat_messages d @ [m]\<rparr>))"

text \<open>
  \<open>SELECT * FROM chats WHERE chat_id = %s AND user_id = %s AND is_active = 1\<close>,
  \<open>fetchone\<close>.
\<close>

definition select_active_chat :: "db \<Rightarrow> uuid \<Rightarrow> int option \<Rightarrow> chat option" where
  "select_active_chat d cid uid =
     fetchone (filter (\<lambda>c. chat_id c = cid \<and> sql_eq (user_id c) uid \<and> is_active c) (chats d))"

text \<open>\<open>SELECT * FROM chats WHERE chat_id = %s AND user_id = %s\<close>, \<open>fetchone\<close>.\<close>

definition select_chat :: "db \<Rightarrow> uuid \<Rightarrow> int option \<Rightarrow> chat option" where
  "select_chat d cid uid =
     fetchone (filter (\<lambda>c. chat_id c = cid \<and> sql_eq (user_id c) uid) (chats d))"

text \<open>
  \<open>SELECT content, is_user_message FROM chat_messages WHERE chat_id = %s
  ORDER BY created_at ASC\<close>.
\<close>

definition select_context :: "env \<Rightarrow> db \<Rightarrow> uuid \<Rightarrow> (string \<times> bool) list" where
  "select_context e d cid =
     map (\<lambda>m. (content m, is_user_message m))
       (order_by_asc (tie_msg e) msg_created_at
          (filter (\<lambda>m. msg_chat_id m = cid) (chat_messages d)))"

text \<open>
  \<open>SELECT message_id, content, is_user_message, created_at FROM chat_messages
  WHERE chat_id = %s ORDER BY created_at ASC\<close>.
\<close>

definition history_row_of :: "chat_message \<Rightarrow> history_row" where
  "history_row_of m =
     \<lparr>h_message_id = message_id m, h_content = content m,
      h_is_user_message = is_user_message m, h_created_at = msg_created_at m\<rparr>"

definition select_history :: "env \<Rightarrow> db \<Rightarrow> uuid \<Rightarrow> history_row list" where
  "select_history e d cid =
     map history_row_of
       (order_by_asc (tie_msg e) msg_created_at
          (filter (\<lambda>m. msg_chat_id m = cid) (chat_messages d)))"

text \<open>\<open>UPDATE chats SET updated_at = %s WHERE chat_id = %s\<close>.\<close>

definition update_chat_timestamp :: "timestamp \<Rightarrow> uuid \<Rightarrow> db \<Rightarrow> db" where
  "update_chat_timestamp t cid d =
     d\<lparr>chats := map (\<lambda>c. if chat_id c = cid then c\<lparr>updated_at := t\<rparr> else c) (chats d)\<rparr>"

text \<open>\<open>UPDATE chats SET is_active = 0, updated_at = %s WHERE chat_id = %s\<close>.\<close>

definition update_chat_inactive :: "timestamp \<Rightarrow> uuid \<Rightarrow> db \<Rightarrow> db" where
  "update_chat_inactive t cid d =
     d\<lparr>chats := map (\<lambda>c. if chat_id c = cid then c\<lparr>is_active := False, updated_at := t\<rparr> else c)
                  (chats d)\<rparr>"

text \<open>
  The scalar subquery \<open>SELECT content FROM chat_messages WHERE chat_id = c.chat_id
  ORDER BY created_at DESC LIMIT 1\<close>: \<open>NULL\<close> when no row matches.
\<close>

definition select_last_message :: "env \<Rightarrow> db \<Rightarrow> uuid \<Rightarrow> string option" where
  "select_last_message e d cid =
     map_option content
       (fetchone (order_by_desc (tie_msg e) msg_created_at
          (filter (\<lambda>m. msg_chat_id m = cid) (chat_messages d))))"

text \<open>
  \<open>SELECT c.chat_id, c.title, c.created_at, c.updated_at, c.is_active, (...) as
  last_message FROM chats c WHERE c.user_id = %s ORDER BY c.updated_at DESC\<close>.
\<close>

definition chat_listing_of :: "env \<Rightarrow> db \<Rightarrow> chat \<Rightarrow> chat_listing" where
  "chat_listing_of e d c =
     \<lparr>l_chat_id = chat_id c, l_title = title c, l_created_at = created_at c,
      l_updated_at = updated_at c, l_is_active = is_active c,
      last_message = select_last_message e d (chat_id c)\<rparr>"

definition select_user_chats :: "env \<Rightarrow> db \<Rightarrow> int option \<Rightarrow> chat_listing list" where
  "select_user_chats e d uid =
     map (chat_listing_of e d)
       (order_by_desc (tie_chat e) updated_at
          (filter (\<lambda>c. sql_eq (user_id c) uid) (chats d)))"

subsection \<open>Handlers\<close>

definition system_message :: string where
  "system_message =
     ''Hello! I'' @ [CHR 0x27] @ ''m your financial assistant. How can I help you with your finances today?''"

definition fallback_response :: string where
  "fallback_response =
     ''I'' @ [CHR 0x27] @ ''m sorry, I'' @ [CHR 0x27]
       @ ''m having trouble processing your request right now. Please try again later.''"

text \<open>The system entry of the prompt, around the serialised financial context.\<close>

definition system_prompt :: "string \<Rightarrow> string" where
  "system_prompt ctx =
     ''You are a helpful financial assistant for a personal finance tracking application.''
     @ [CHR 0x0A] @ ''        You have access to the user'' @ [CHR 0x27]
     @ ''s financial data and can answer questions about their spending, budget, and carbon footprint.''
     @ [CHR 0x0A] @ ''        Current user data: '' @ ctx
     @ [CHR 0x0A] @ ''        '' @ [CHR 0x0A]
     @ ''        Be helpful, concise, and focus on providing actionable financial insights.''"

definition formatted_messages :: "string \<Rightarrow> (string \<times> bool) list \<Rightarrow> (role \<times> string) list" where
  "formatted_messages ctx messages =
     (System, system_prompt ctx)
       # map (\<lambda>(text, is_user). (if is_user then User else Assistant, text)) messages"

text \<open>Python truthiness of the two body fields, as \<open>not x\<close>.\<close>

definition not_user_id :: "int option \<Rightarrow> bool" where
  "not_user_id uid = (uid = None \<or> uid = Some 0)"

definition not_message :: "string option \<Rightarrow> bool" where
  "not_message msg = (msg = None \<or> msg = Some [])"

text \<open>\<open>POST /api/chats/start\<close> with body \<open>{user_id}\<close>.\<close>

definition start_chat :: "env \<Rightarrow> int option \<Rightarrow> db \<Rightarrow> outcome" where
  "start_chat e uid d =
     (if not_user_id uid then (Inr (400, Error ''User ID is required''), d)
      else case select_user d (the uid) of
        None \<Rightarrow> (Inr (404, Error ''User not found''), d)
      | Some _ \<Rightarrow>
          (case insert_chat \<lparr>chat_id = uuid_1 e, user_id = the uid, title = ''New Financial Chat'',
                             created_at = now e, updated_at = now e, is_active = True\<rparr> d of
             Inl x \<Rightarrow> (Inl x, d)
           | Inr d1 \<Rightarrow>
               (case insert_message \<lparr>message_id = uuid_2 e, msg_chat_id = uuid_1 e,
                                      content = system_message, is_user_message = False,
                                      msg_created_at = now e\<rparr> d1 of
                  Inl x \<Rightarrow> (Inl x, d1)
                | Inr d2 \<Rightarrow> (Inr (200, Started (uuid_1 e) system_message), d2))))"

text \<open>\<open>POST /api/chats/<chat_id>/message\<close> with body \<open>{user_id, message}\<close>.\<close>

definition send_message :: "env \<Rightarrow> uuid \<Rightarrow> int option \<Rightarrow> string option \<Rightarrow> db \<Rightarrow> outcome" where
  "send_message e cid uid msg d =
     (if not_message msg then (Inr (400, Error ''Message is required''), d)
      else case select_active_chat d cid uid of
        None \<Rightarrow> (Inr (404, Error ''Chat not found or inactive''), d)
      | Some _ \<Rightarrow>
          (case insert_message \<lparr>message_id = uuid_1 e, msg_chat_id = cid, content = the msg,
                                 is_user_message = True, msg_created_at = now e\<rparr> d of
             Inl x \<Rightarrow> (Inl x, d)
           | Inr d1 \<Rightarrow>
               (let messages = select_context e d1 cid;
                    assistant_response =
                      (case complete e (formatted_messages (user_data e uid) messages) of
                         Some r \<Rightarrow> r
                       | None \<Rightarrow> fallback_response)
                in case insert_message \<lparr>message_id = uuid_2 e, msg_chat_id = cid,
                                         content = assistant_response, is_user_message = False,
                                         msg_created_at = now e\<rparr> d1 of
                     Inl x \<Rightarrow> (Inl x, d1)
                   | Inr d2 \<Rightarrow>
                       (Inr (200, Reply (uuid_2 e) assistant_response),
                        update_chat_timestamp (now e) cid d2))))"

text \<open>\<open>POST /api/chats/<chat_id>/end\<close> with body \<open>{user_id}\<close>.\<close>

definition end_chat :: "env \<Rightarrow> uuid \<Rightarrow> int option \<Rightarrow> db \<Rightarrow> outcome" where
  "end_chat e cid uid d =
     (case select_active_chat d cid uid of
        None \<Rightarrow> (Inr (404, Error ''Chat not found or already inactive''), d)
      | Some _ \<Rightarrow> (Inr (200, Ended), update_chat_inactive (now e) cid d))"

text \<open>\<open>GET /api/chats?user_id=...\<close>.\<close>

definition get_user_chats :: "env \<Rightarrow> int option \<Rightarrow> db \<Rightarrow> outcome" where
  "get_user_chats e uid d =
     (if uid = None then (Inr (400, Error ''User ID is required''), d)
      else (Inr (200, Chats (select_user_chats e d uid)), d))"

text \<open>\<open>GET /api/chats/<chat_id>?user_id=...\<close>.\<close>

definition get_chat_messages :: "env \<Rightarrow> uuid \<Rightarrow> int option \<Rightarrow> db \<Rightarrow> outcome" where
  "get_chat_messages e cid uid d =
     (if uid = None then (Inr (400, Error ''User ID is required''), d)
      else case select_chat d cid uid of
        None \<Rightarrow> (Inr (404, Error ''Chat not found''), d)
      | Some c \<Rightarrow>
          (Inr (200, History cid (title c) (is_active c) (select_history e d cid)), d))"

subsection \<open>Requests and runs\<close>

datatype request =
    StartChat "int option"
  | SendMessage uuid "int option" "string option"
  | EndChat uuid "int option"
  | GetUserChats "int option"
  | GetChatMessages uuid "int option"

fun handle :: "env \<Rightarrow> request \<Rightarrow> db \<Rightarrow> outcome" where
  "handle e (StartChat uid) d = start_chat e uid d"
| "handle e (SendMessage cid uid msg) d = send_message e cid uid msg d"
| "handle e (EndChat cid uid) d = end_chat e cid uid d"
| "handle e (GetUserChats uid) d = get_user_chats e uid d"
| "handle e (GetChatMessages cid uid) d = get_chat_messages e cid uid d"

text \<open>The store after a sequence of requests, served one after the other.\<close>

fun run :: "(env \<times> request) list \<Rightarrow> db \<Rightarrow> db" where
  "run [] d = d"
| "run ((e, r) # rest) d = run rest (snd (handle e r d))"

subsection \<open>Predicates of the specification\<close>

text \<open>The chat \<open>cid\<close> exists and is inactive.\<close>

definition chat_inactive :: "db \<Rightarrow> uuid \<Rightarrow> bool" where
  "chat_inactive d cid =
     ((\<exists>c\<in>set (chats d). chat_id c = cid) \<and> (\<forall>c\<in>set (chats d). chat_id c = cid \<longrightarrow> \<not> is_active c))"

text \<open>
  Two messages stored under equal \<open>created_at\<close> values are neighbours in
  insertion order, a user message followed by an assistant message of the same chat.
\<close>

definition ties_are_exchanges :: "chat_message list \<Rightarrow> bool" where
  "ties_are_exchanges ms =
     (\<forall>j<length ms. \<forall>i<j. msg_created_at (ms ! i) = msg_created_at (ms ! j) \<longrightarrow>
        j = Suc i \<and> is_user_message (ms ! i) \<and> \<not> is_user_message (ms ! j)
        \<and> msg_chat_id (ms ! i) = msg_chat_id (ms ! j))"

text \<open>
  The rows one request can add to \<open>chat_messages\<close> when its clock reads \<open>t\<close>: none,
  one row, or a user message and an assistant message of one chat, all stamped \<open>t\<close>.
\<close>

fun request_rows :: "timestamp \<Rightarrow> chat_message list \<Rightarrow> bool" where
  "request_rows t [] = True"
| "request_rows t [m] = (msg_created_at m = t)"
| "request_rows t [u, a] =
     (msg_created_at u = t \<and> msg_created_at a = t \<and> is_user_message u
      \<and> \<not> is_user_message a \<and> msg_chat_id u = msg_chat_id a)"
| "request_rows t (u # a # b # rest) = False"

subsection \<open>Example stores\<close>

text \<open>
  An environment with clock reading \<open>t\<close>, generated UUIDs \<open>a\<close> and \<open>b\<close> and a
  completion service that answers \<open>r\<close>; a store with the single user 7, the store
  after that user starts the chat \<open>c1\<close> at time 10, after the user sends ``hi'' at
  time 20, and after the user ends the chat at time 30.
\<close>

definition env_ex :: "timestamp \<Rightarrow> uuid \<Rightarrow> uuid \<Rightarrow> string option \<Rightarrow> env" where
  "env_ex t a b r =
     \<lparr>now = t, uuid_1 = a, uuid_2 = b, user_data = (\<lambda>_. ''{}''), complete = (\<lambda>_. r),
      tie_msg = (\<lambda>_. 0), tie_chat = (\<lambda>_. 0)\<rparr>"

definition db_0 :: db where
  "db_0 = \<lparr>users = {7}, chats = [], chat_messages = []\<rparr>"

definition db_1 :: db where
  "db_1 = snd (start_chat (env_ex 10 ''c1'' ''m1'' None) (Some 7) db_0)"

definition db_2 :: db where
  "db_2 = snd (send_message (env_ex 20 ''m2'' ''m3'' (Some ''ok'')) ''c1'' (Some 7) (Some ''hi'') db_1)"

definition db_3 :: db where
  "db_3 = snd (end_chat (env_ex 30 [] [] None) ''c1'' (Some 7) db_2)"

definition steps_ex :: "(env \<times> request) list" where
  "steps_ex =
     [(env_ex 10 ''c1'' ''m1'' None, StartChat (Some 7)),
      (env_ex 20 ''m2'' ''m3'' (Some ''ok''), SendMessage ''c1'' (Some 7) (Some ''hi''))]"

text \<open>A store whose only user has the id 0.\<close>

definition db_zero :: db where
  "db_zero = \<lparr>users = {0}, chats = [], chat_messages = []\<rparr>"


section \<open>Basic facts\<close>

lemma fetchone_None: "fetchone xs = None \<longleftrightarrow> xs = []"
  by (cases xs) (simp_all add: fetchone_def)

lemma select_active_chat_None:
  "select_active_chat d cid uid = None \<longleftrightarrow>
     (\<forall>c\<in>set (chats d). chat_id c = cid \<longrightarrow> uid \<noteq> Some (user_id c) \<or> \<not> is_active c)"
  by (auto simp: select_active_chat_def fetchone_None filter_empty_conv sql_eq_def
      split: option.splits)

lemma select_active_chat_Some:
  assumes "c \<in> set (chats d)" "chat_id c = cid" "user_id c = u" "is_active c"
  shows "\<exists>c'. select_active_chat d cid (Some u) = Some c'"
proof -
  have "select_active_chat d cid (Some u) \<noteq> None"
    using assms by (auto simp: select_active_chat_None)
  then show ?thesis by auto
qed

text \<open>What the statements and handlers do to the \<open>chats\<close> table.\<close>

lemma insert_message_Inr:
  assumes "insert_message m d = Inr d'"
  shows "d' = d\<lparr>chat_messages := chat_messages d @ [m]\<rparr>"
  using assms by (simp add: insert_message_def split: if_splits)

lemma insert_message_Inr_chats: "insert_message m d = Inr d' \<Longrightarrow> chats d' = chats d"
  by (auto dest: insert_message_Inr)

lemma insert_chat_Inr:
  assumes "insert_chat c d = Inr d'"
  shows "d' = d\<lparr>chats := chats d @ [c]\<rparr> \<and> chat_id c \<notin> chat_id ` set (chats d) \<and> user_id c \<in> users d"
  using assms by (simp add: insert_chat_def split: if_splits)

lemma start_chat_chats:
  "chats (snd (start_chat e uid d)) = chats d
   \<or> (\<exists>c. chats (snd (start_chat e uid d)) = chats d @ [c]
          \<and> chat_id c \<notin> chat_id ` set (chats d) \<and> user_id c \<noteq> 0)"
proof (cases "not_user_id uid \<or> select_user d (the uid) = None")
  case True
  then show ?thesis by (auto simp: start_chat_def)
next
  case False
  let ?c = "\<lparr>chat_id = uuid_1 e, user_id = the uid, title = ''New Financial Chat'',
             created_at = now e, updated_at = now e, is_active = True\<rparr>"
  show ?thesis
  proof (cases "insert_chat ?c d")
    case (Inl x)
    then show ?thesis using False by (auto simp: start_chat_def)
  next
    case (Inr d1)
    note ic = insert_chat_Inr[OF Inr]
    have nz: "user_id ?c \<noteq> 0" using False by (auto simp: not_user_id_def)
    have "chats (snd (start_chat e uid d)) = chats d1"
      using False Inr
      by (auto simp: start_chat_def split: sum.splits dest: insert_message_Inr_chats)
    then show ?thesis using ic nz by auto
  qed
qed

lemma fetchone_SomeD: "fetchone xs = Some x \<Longrightarrow> x \<in> set xs"
  by (cases xs) (auto simp: fetchone_def)

lemma select_active_chat_SomeD:
  assumes "select_active_chat d cid uid = Some c"
  shows "c \<in> set (chats d) \<and> chat_id c = cid \<and> uid = Some (user_id c) \<and> is_active c"
  using fetchone_SomeD[OF assms[unfolded select_active_chat_def]]
  by (auto simp: sql_eq_def split: option.splits)

lemma send_message_refused:
  assumes "select_active_chat d cid uid = None"
  shows "send_message e cid uid msg d =
           (Inr (if not_message msg then (400, Error ''Message is required'')
                 else (404, Error ''Chat not found or inactive'')), d)"
  using assms by (simp add: send_message_def)

lemma end_chat_refused:
  assumes "select_active_chat d cid uid = None"
  shows "end_chat e cid uid d = (Inr (404, Error ''Chat not found or already inactive''), d)"
  using assms by (simp add: end_chat_def)

lemma end_chat_accepted:
  assumes "c \<in> set (chats d)" "chat_id c = cid" "user_id c = u" "is_active c"
  shows "end_chat e cid (Some u) d =
           (Inr (200, Ended),
            d\<lparr>chats := map (\<lambda>c. if chat_id c = cid then c\<lparr>is_active := False, updated_at := now e\<rparr>
                                 else c) (chats d)\<rparr>)"
proof -
  obtain c' where "select_active_chat d cid (Some u) = Some c'"
    using select_active_chat_Some[OF assms] by blast
  then show ?thesis by (simp add: end_chat_def update_chat_inactive_def)
qed

lemma select_active_chat_inactive:
  assumes "chat_inactive d cid"
  shows "select_active_chat d cid uid = None"
  using assms by (simp add: select_active_chat_None chat_inactive_def)

lemma chat_inactive_after_update:
  assumes "c \<in> set (chats d)" "chat_id c = cid"
  shows "chat_inactive (update_chat_inactive t cid d) cid"
proof -
  let ?f = "\<lambda>c. if chat_id c = cid then c\<lparr>is_active := False, updated_at := t\<rparr> else c"
  have 1: "\<exists>x\<in>set (chats d). chat_id (?f x) = cid"
    using assms by (intro bexI[of _ c]) simp_all
  have 2: "\<forall>x\<in>set (chats d). chat_id (?f x) = cid \<longrightarrow> \<not> is_active (?f x)"
    by simp
  have 3: "chats (update_chat_inactive t cid d) = map ?f (chats d)"
    by (simp add: update_chat_inactive_def)
  show ?thesis
    unfolding chat_inactive_def 3 set_map bex_simps ball_simps
    using 1 2 by blast
qed

lemma send_message_chats:
  "chats (snd (send_message e cid uid msg d)) = chats d
   \<or> chats (snd (send_message e cid uid msg d))
       = map (\<lambda>c. if chat_id c = cid then c\<lparr>updated_at := now e\<rparr> else c) (chats d)"
proof (cases "not_message msg \<or> select_active_chat d cid uid = None")
  case True
  then show ?thesis by (auto simp: send_message_def)
next
  case False
  let ?u = "\<lparr>message_id = uuid_1 e, msg_chat_id = cid, content = the msg,
             is_user_message = True, msg_created_at = now e\<rparr>"
  show ?thesis
  proof (cases "insert_message ?u d")
    case (Inl x)
    then show ?thesis using False by (auto simp: send_message_def)
  next
    case (Inr d1)
    note u = Inr
    have d1: "chats d1 = chats d" using u by (rule insert_message_Inr_chats)
    let ?a = "\<lparr>message_id = uuid_2 e, msg_chat_id = cid,
               content = (case complete e (formatted_messages (user_data e uid)
                                           (select_context e d1 cid)) of
                            Some r \<Rightarrow> r | None \<Rightarrow> fallback_response),
               is_user_message = False, msg_created_at = now e\<rparr>"
    show ?thesis
    proof (cases "insert_message ?a d1")
      case (Inl x)
      then show ?thesis using False u d1 by (auto simp: send_message_def Let_def)
    next
      case (Inr d2)
      have "chats d2 = chats d" using insert_message_Inr_chats[OF Inr] d1 by simp
      then show ?thesis
        using False u Inr by (auto simp: send_message_def Let_def update_chat_timestamp_def)
    qed
  qed
qed

lemma end_chat_chats:
  "chats (snd (end_chat e cid uid d)) = chats d
   \<or> chats (snd (end_chat e cid uid d))
       = map (\<lambda>c. if chat_id c = cid then c\<lparr>is_active := False, updated_at := now e\<rparr> else c)
           (chats d)"
  by (auto simp: end_chat_def update_chat_inactive_def split: option.splits)

lemma get_user_chats_snd: "snd (get_user_chats e uid d) = d"
  by (simp add: get_user_chats_def)

lemma get_chat_messages_snd: "snd (get_chat_messages e cid uid d) = d"
  by (simp add: get_chat_messages_def split: option.splits)

lemma chat_inactive_append:
  assumes "chat_inactive d cid" "chats d' = chats d @ [c]" "chat_id c \<notin> chat_id ` set (chats d)"
  shows "chat_inactive d' cid"
  using assms by (auto simp: chat_inactive_def)

lemma chat_inactive_map:
  assumes "chat_inactive d cid" "chats d' = map f (chats d)"
    and "\<And>c. chat_id (f c) = chat_id c" "\<And>c. \<not> is_active c \<Longrightarrow> \<not> is_active (f c)"
  shows "chat_inactive d' cid"
  using assms by (auto simp: chat_inactive_def)

lemma handle_chat_inactive:
  assumes "chat_inactive d cid"
  shows "chat_inactive (snd (handle e r d)) cid"
proof (cases r)
  case (StartChat uid)
  from start_chat_chats[of e uid d] have "chat_inactive (snd (start_chat e uid d)) cid"
  proof
    assume "chats (snd (start_chat e uid d)) = chats d"
    then show ?thesis using assms by (simp add: chat_inactive_def)
  next
    assume "\<exists>c. chats (snd (start_chat e uid d)) = chats d @ [c]
          \<and> chat_id c \<notin> chat_id ` set (chats d) \<and> user_id c \<noteq> 0"
    then obtain c where c: "chats (snd (start_chat e uid d)) = chats d @ [c]"
      "chat_id c \<notin> chat_id ` set (chats d)" by auto
    show ?thesis by (rule chat_inactive_append[OF assms c])
  qed
  then show ?thesis using StartChat by simp
next
  case (SendMessage c uid msg)
  from send_message_chats[of e c uid msg d]
  have "chat_inactive (snd (send_message e c uid msg d)) cid"
  proof
    assume "chats (snd (send_message e c uid msg d)) = chats d"
    then show ?thesis using assms by (simp add: chat_inactive_def)
  next
    assume "chats (snd (send_message e c uid msg d))
       = map (\<lambda>x. if chat_id x = c then x\<lparr>updated_at := now e\<rparr> else x) (chats d)"
    then show ?thesis by (rule chat_inactive_map[OF assms]) simp_all
  qed
  then show ?thesis using SendMessage by simp
next
  case (EndChat c uid)
  from end_chat_chats[of e c uid d]
  have "chat_inactive (snd (end_chat e c uid d)) cid"
  proof
    assume "chats (snd (end_chat e c uid d)) = chats d"
    then show ?thesis using assms by (simp add: chat_inactive_def)
  next
    assume "chats (snd (end_chat e c uid d))
       = map (\<lambda>x. if chat_id x = c then x\<lparr>is_active := False, updated_at := now e\<rparr> else x)
           (chats d)"
    then show ?thesis by (rule chat_inactive_map[OF assms]) simp_all
  qed
  then show ?thesis using EndChat by simp
next
  case (GetUserChats uid)
  then show ?thesis using assms by (simp add: get_user_chats_snd)
next
  case (GetChatMessages c uid)
  then show ?thesis using assms by (simp add: get_chat_messages_snd)
qed

lemma run_chat_inactive:
  "chat_inactive d cid \<Longrightarrow> chat_inactive (run steps d) cid"
proof (induction steps arbitrary: d)
  case Nil
  then show ?case by simp
next
  case (Cons a steps)
  obtain e r where a: "a = (e, r)" by (cases a)
  have "chat_inactive (snd (handle e r d)) cid"
    using Cons.prems by (rule handle_chat_inactive)
  then show ?case using a Cons.IH by simp
qed

text \<open>No handler creates a chat owned by the user id 0.\<close>

lemma chats_after_handle:
  "\<exists>f new. chats (snd (handle e r d)) = map f (chats d) @ new
     \<and> (\<forall>c. user_id (f c) = user_id c) \<and> (\<forall>c\<in>set new. user_id c \<noteq> 0)"
proof (cases r)
  case (StartChat uid)
  from start_chat_chats[of e uid d] show ?thesis
  proof
    assume "chats (snd (start_chat e uid d)) = chats d"
    then have "chats (snd (handle e r d)) = map (\<lambda>c. c) (chats d) @ []" using StartChat by simp
    then show ?thesis by (intro exI[of _ "\<lambda>c. c"] exI[of _ "[]"]) simp
  next
    assume "\<exists>c. chats (snd (start_chat e uid d)) = chats d @ [c]
          \<and> chat_id c \<notin> chat_id ` set (chats d) \<and> user_id c \<noteq> 0"
    then obtain c where "chats (snd (start_chat e uid d)) = chats d @ [c]" "user_id c \<noteq> 0" by auto
    then show ?thesis using StartChat by (intro exI[of _ "\<lambda>c. c"] exI[of _ "[c]"]) simp
  qed
next
  case (SendMessage cid uid msg)
  from send_message_chats[of e cid uid msg d] show ?thesis
  proof
    assume "chats (snd (send_message e cid uid msg d)) = chats d"
    then show ?thesis using SendMessage by (intro exI[of _ "\<lambda>c. c"] exI[of _ "[]"]) simp
  next
    assume "chats (snd (send_message e cid uid msg d))
       = map (\<lambda>c. if chat_id c = cid then c\<lparr>updated_at := now e\<rparr> else c) (chats d)"
    then show ?thesis using SendMessage
      by (intro exI[of _ "\<lambda>c. if chat_id c = cid then c\<lparr>updated_at := now e\<rparr> else c"]
          exI[of _ "[]"]) simp
  qed
next
  case (EndChat cid uid)
  from end_chat_chats[of e cid uid d] show ?thesis
  proof
    assume "chats (snd (end_chat e cid uid d)) = chats d"
    then show ?thesis using EndChat by (intro exI[of _ "\<lambda>c. c"] exI[of _ "[]"]) simp
  next
    assume "chats (snd (end_chat e cid uid d))
       = map (\<lambda>c. if chat_id c = cid then c\<lparr>is_active := False, updated_at := now e\<rparr> else c)
           (chats d)"
    then show ?thesis using EndChat
      by (intro exI[of _ "\<lambda>c. if chat_id c = cid then c\<lparr>is_active := False, updated_at := now e\<rparr> else c"]
          exI[of _ "[]"]) simp
  qed
next
  case (GetUserChats uid)
  then show ?thesis
    by (intro exI[of _ "\<lambda>c. c"] exI[of _ "[]"]) (simp add: get_user_chats_snd)
next
  case (GetChatMessages cid uid)
  then show ?thesis
    by (intro exI[of _ "\<lambda>c. c"] exI[of _ "[]"]) (simp add: get_chat_messages_snd)
qed

lemma handle_no_zero_owner:
  assumes "\<forall>c\<in>set (chats d). user_id c \<noteq> 0"
  shows "\<forall>c\<in>set (chats (snd (handle e r d))). user_id c \<noteq> 0"
proof -
  obtain f new where "chats (snd (handle e r d)) = map f (chats d) @ new"
    "\<forall>c. user_id (f c) = user_id c" "\<forall>c\<in>set new. user_id c \<noteq> 0"
    using chats_after_handle[of e r d] by blast
  then show ?thesis using assms by auto
qed

lemma run_no_zero_owner:
  "\<forall>c\<in>set (chats d). user_id c \<noteq> 0 \<Longrightarrow> \<forall>c\<in>set (chats (run steps d)). user_id c \<noteq> 0"
proof (induction steps arbitrary: d)
  case Nil
  then show ?case by simp
next
  case (Cons a steps)
  obtain e r where a: "a = (e, r)" by (cases a)
  have "\<forall>c\<in>set (chats (snd (handle e r d))). user_id c \<noteq> 0"
    using Cons.prems by (rule handle_no_zero_owner)
  then show ?case using a Cons.IH by simp
qed




lemma set_order_by_desc: "set (order_by_desc tie key rows) = set rows"
  by (simp add: order_by_desc_def)














text \<open>What a request adds to \<open>chat_messages\<close>, and what that does to equal timestamps.\<close>

lemma insert_chat_Inr_messages: "insert_chat c d = Inr d' \<Longrightarrow> chat_messages d' = chat_messages d"
  by (auto dest: insert_chat_Inr)

lemma start_chat_messages:
  "\<exists>new. chat_messages (snd (start_chat e uid d)) = chat_messages d @ new
          \<and> request_rows (now e) new"
proof (cases "not_user_id uid \<or> select_user d (the uid) = None")
  case True
  then have "chat_messages (snd (start_chat e uid d)) = chat_messages d @ []"
    by (auto simp: start_chat_def)
  then show ?thesis by (intro exI[of _ "[]"]) simp
next
  case False
  let ?c = "\<lparr>chat_id = uuid_1 e, user_id = the uid, title = ''New Financial Chat'',
             created_at = now e, updated_at = now e, is_active = True\<rparr>"
  let ?m = "\<lparr>message_id = uuid_2 e, msg_chat_id = uuid_1 e, content = system_message,
             is_user_message = False, msg_created_at = now e\<rparr>"
  show ?thesis
  proof (cases "insert_chat ?c d")
    case (Inl x)
    then have "chat_messages (snd (start_chat e uid d)) = chat_messages d @ []"
      using False by (auto simp: start_chat_def)
    then show ?thesis by (intro exI[of _ "[]"]) simp
  next
    case (Inr d1)
    note c = Inr
    have d1: "chat_messages d1 = chat_messages d" using c by (rule insert_chat_Inr_messages)
    show ?thesis
    proof (cases "insert_message ?m d1")
      case (Inl x)
      then have "chat_messages (snd (start_chat e uid d)) = chat_messages d @ []"
        using False c d1 by (auto simp: start_chat_def)
      then show ?thesis by (intro exI[of _ "[]"]) simp
    next
      case (Inr d2)
      have "chat_messages d2 = chat_messages d @ [?m]"
        using insert_message_Inr[OF Inr] d1 by simp
      then have "chat_messages (snd (start_chat e uid d)) = chat_messages d @ [?m]"
        using False c Inr by (auto simp: start_chat_def)
      then show ?thesis by (intro exI[of _ "[?m]"]) simp
    qed
  qed
qed

lemma send_message_messages:
  "\<exists>new. chat_messages (snd (send_message e cid uid msg d)) = chat_messages d @ new
          \<and> request_rows (now e) new"
proof (cases "not_message msg \<or> select_active_chat d cid uid = None")
  case True
  then have "chat_messages (snd (send_message e cid uid msg d)) = chat_messages d @ []"
    by (auto simp: send_message_def)
  then show ?thesis by (intro exI[of _ "[]"]) simp
next
  case False
  let ?u = "\<lparr>message_id = uuid_1 e, msg_chat_id = cid, content = the msg,
             is_user_message = True, msg_created_at = now e\<rparr>"
  show ?thesis
  proof (cases "insert_message ?u d")
    case (Inl x)
    then have "chat_messages (snd (send_message e cid uid msg d)) = chat_messages d @ []"
      using False by (auto simp: send_message_def)
    then show ?thesis by (intro exI[of _ "[]"]) simp
  next
    case (Inr d1)
    note u = Inr
    have d1: "chat_messages d1 = chat_messages d @ [?u]"
      using insert_message_Inr[OF u] by simp
    let ?a = "\<lparr>message_id = uuid_2 e, msg_chat_id = cid,
               content = (case complete e (formatted_messages (user_data e uid)
                                           (select_context e d1 cid)) of
                            Some r \<Rightarrow> r | None \<Rightarrow> fallback_response),
               is_user_message = False, msg_created_at = now e\<rparr>"
    show ?thesis
    proof (cases "insert_message ?a d1")
      case (Inl x)
      then have "chat_messages (snd (send_message e cid uid msg d)) = chat_messages d @ [?u]"
        using False u d1 by (auto simp: send_message_def Let_def)
      then show ?thesis by (intro exI[of _ "[?u]"]) simp
    next
      case (Inr d2)
      have "chat_messages d2 = chat_messages d @ [?u, ?a]"
        using insert_message_Inr[OF Inr] d1 by simp
      then have "chat_messages (snd (send_message e cid uid msg d)) = chat_messages d @ [?u, ?a]"
        using False u Inr by (auto simp: send_message_def Let_def update_chat_timestamp_def)
      then show ?thesis by (intro exI[of _ "[?u, ?a]"]) simp
    qed
  qed
qed

lemma end_chat_messages: "chat_messages (snd (end_chat e cid uid d)) = chat_messages d"
  by (simp add: end_chat_def update_chat_inactive_def split: option.splits)

lemma handle_messages:
  "\<exists>new. chat_messages (snd (handle e r d)) = chat_messages d @ new \<and> request_rows (now e) new"
proof (cases r)
  case (StartChat uid)
  then show ?thesis using start_chat_messages[of e uid d] by simp
next
  case (SendMessage cid uid msg)
  then show ?thesis using send_message_messages[of e cid uid msg d] by simp
next
  case (EndChat cid uid)
  then have "chat_messages (snd (handle e r d)) = chat_messages d @ []"
    by (simp add: end_chat_messages)
  then show ?thesis by (intro exI[of _ "[]"]) simp
next
  case (GetUserChats uid)
  then have "chat_messages (snd (handle e r d)) = chat_messages d @ []"
    by (simp add: get_user_chats_snd)
  then show ?thesis by (intro exI[of _ "[]"]) simp
next
  case (GetChatMessages cid uid)
  then have "chat_messages (snd (handle e r d)) = chat_messages d @ []"
    by (simp add: get_chat_messages_snd)
  then show ?thesis by (intro exI[of _ "[]"]) simp
qed

lemma ties_snoc:
  assumes "ties_are_exchanges ms" and "\<forall>m\<in>set ms. msg_created_at m < msg_created_at x"
  shows "ties_are_exchanges (ms @ [x])"
  unfolding ties_are_exchanges_def
proof (intro allI impI)
  fix j i
  assume j: "j < length (ms @ [x])" and i: "i < j"
    and eq: "msg_created_at ((ms @ [x]) ! i) = msg_created_at ((ms @ [x]) ! j)"
  show "j = Suc i \<and> is_user_message ((ms @ [x]) ! i) \<and> \<not> is_user_message ((ms @ [x]) ! j)
        \<and> msg_chat_id ((ms @ [x]) ! i) = msg_chat_id ((ms @ [x]) ! j)"
  proof (cases "j < length ms")
    case True
    then show ?thesis
      using assms(1) i eq by (simp add: ties_are_exchanges_def nth_append)
  next
    case False
    then have jl: "j = length ms" using j by simp
    then have "ms ! i \<in> set ms" using i by simp
    then have "msg_created_at (ms ! i) < msg_created_at x" using assms(2) by blast
    then show ?thesis using eq jl i by (simp add: nth_append)
  qed
qed

lemma ties_exchange:
  assumes "ties_are_exchanges ms" and "\<forall>m\<in>set ms. msg_created_at m < msg_created_at u"
    and "msg_created_at a = msg_created_at u" "is_user_message u" "\<not> is_user_message a"
    and "msg_chat_id u = msg_chat_id a"
  shows "ties_are_exchanges (ms @ [u, a])"
  unfolding ties_are_exchanges_def
proof (intro allI impI)
  fix j i
  let ?l = "ms @ [u, a]"
  assume j: "j < length ?l" and i: "i < j"
    and eq: "msg_created_at (?l ! i) = msg_created_at (?l ! j)"
  have old: "\<And>k. k < length ms \<Longrightarrow> msg_created_at (ms ! k) < msg_created_at u"
    using assms(2) by simp
  consider "j < length ms" | "j = length ms" | "j = Suc (length ms)"
    using j by (auto simp: less_Suc_eq)
  then show "j = Suc i \<and> is_user_message (?l ! i) \<and> \<not> is_user_message (?l ! j)
        \<and> msg_chat_id (?l ! i) = msg_chat_id (?l ! j)"
  proof cases
    case 1
    then show ?thesis
      using assms(1) i eq by (simp add: ties_are_exchanges_def nth_append)
  next
    case 2
    then show ?thesis using eq i old[of i] by (simp add: nth_append)
  next
    case 3
    show ?thesis
    proof (cases "i = length ms")
      case True
      then show ?thesis using 3 assms(3-6) by (simp add: nth_append)
    next
      case False
      then have "i < length ms" using i 3 by simp
      then show ?thesis using eq 3 old[of i] assms(3) by (simp add: nth_append)
    qed
  qed
qed

lemma ties_request:
  assumes "ties_are_exchanges ms" and "\<forall>m\<in>set ms. msg_created_at m < t"
    and "request_rows t new"
  shows "ties_are_exchanges (ms @ new) \<and> (\<forall>m\<in>set (ms @ new). msg_created_at m < Suc t)"
proof -
  have old: "\<forall>m\<in>set ms. msg_created_at m < Suc t"
    using assms(2) by (simp add: less_Suc_eq)
  consider "new = []" | m where "new = [m]" | u a where "new = [u, a]"
    | u a b rest where "new = u # a # b # rest"
    by (cases new rule: list.exhaust; (cases "tl new"; (cases "tl (tl new)"; simp)))
  then show ?thesis
  proof cases
    case 1
    then show ?thesis using assms(1) old by simp
  next
    case 2
    then have t: "msg_created_at m = t" using assms(3) by simp
    have "ties_are_exchanges (ms @ [m])"
      using assms(1,2) t by (intro ties_snoc) simp_all
    then show ?thesis using 2 old t by simp
  next
    case 3
    then have r: "msg_created_at u = t" "msg_created_at a = t" "is_user_message u"
      "\<not> is_user_message a" "msg_chat_id u = msg_chat_id a"
      using assms(3) by simp_all
    have "ties_are_exchanges (ms @ [u, a])"
      using assms(1,2) r by (intro ties_exchange) simp_all
    then show ?thesis using 3 old r by simp
  next
    case 4
    then show ?thesis using assms(3) by simp
  qed
qed

lemma run_ties:
  assumes "ties_are_exchanges (chat_messages d)"
    and "\<forall>m\<in>set (chat_messages d). msg_created_at m < t"
    and "sorted_wrt (<) (map (\<lambda>s. now (fst s)) steps)"
    and "\<forall>s\<in>set steps. t \<le> now (fst s)"
  shows "ties_are_exchanges (chat_messages (run steps d))"
  using assms
proof (induction steps arbitrary: d t)
  case Nil
  then show ?case by simp
next
  case (Cons s steps)
  obtain e r where s: "s = (e, r)" by (cases s)
  obtain new where new: "chat_messages (snd (handle e r d)) = chat_messages d @ new"
    "request_rows (now e) new"
    using handle_messages[of e r d] by blast
  have le: "t \<le> now e" using Cons.prems(4) s by simp
  have "\<forall>m\<in>set (chat_messages d). msg_created_at m < now e"
    using Cons.prems(2) le by auto
  then have step: "ties_are_exchanges (chat_messages (snd (handle e r d)))"
    "\<forall>m\<in>set (chat_messages (snd (handle e r d))). msg_created_at m < Suc (now e)"
    using ties_request[OF Cons.prems(1) _ new(2)] new(1) by simp_all
  have srt: "sorted_wrt (<) (map (\<lambda>s. now (fst s)) steps)"
    using Cons.prems(3) by simp
  have later: "\<forall>s'\<in>set steps. Suc (now e) \<le> now (fst s')"
    using Cons.prems(3) s by auto
  have "ties_are_exchanges (chat_messages (run steps (snd (handle e r d))))"
    using Cons.IH[OF step srt later] .
  then show ?case using s by simp
qed

text \<open>The example stores, row by row.\<close>

lemma db_1_eq:
  "db_1 = \<lparr>users = {7},
     chats = [\<lparr>chat_id = ''c1'', user_id = 7, title = ''New Financial Chat'',
               created_at = 10, updated_at = 10, is_active = True\<rparr>],
     chat_messages = [\<lparr>message_id = ''m1'', msg_chat_id = ''c1'', content = system_message,
               is_user_message = False, msg_created_at = 10\<rparr>]\<rparr>"
  by (simp add: db_1_def db_0_def env_ex_def start_chat_def not_user_id_def select_user_def
      insert_chat_def insert_message_def)

lemma db_2_eq:
  "db_2 = \<lparr>users = {7},
     chats = [\<lparr>chat_id = ''c1'', user_id = 7, title = ''New Financial Chat'',
               created_at = 10, updated_at = 20, is_active = True\<rparr>],
     chat_messages = [\<lparr>message_id = ''m1'', msg_chat_id = ''c1'', content = system_message,
               is_user_message = False, msg_created_at = 10\<rparr>,
             \<lparr>message_id = ''m2'', msg_chat_id = ''c1'', content = ''hi'',
               is_user_message = True, msg_created_at = 20\<rparr>,
             \<lparr>message_id = ''m3'', msg_chat_id = ''c1'', content = ''ok'',
               is_user_message = False, msg_created_at = 20\<rparr>]\<rparr>"
  by (simp add: db_2_def db_1_eq env_ex_def send_message_def not_message_def
      select_active_chat_def sql_eq_def fetchone_def insert_message_def Let_def
      update_chat_timestamp_def)

lemma db_3_eq:
  "db_3 = db_2\<lparr>chats := [\<lparr>chat_id = ''c1'', user_id = 7, title = ''New Financial Chat'',
               created_at = 10, updated_at = 30, is_active = False\<rparr>]\<rparr>"
  by (simp add: db_3_def db_2_eq env_ex_def end_chat_def select_active_chat_def sql_eq_def
      fetchone_def update_chat_inactive_def)

lemma run_steps_ex: "run steps_ex db_0 = db_2"
  by (simp add: steps_ex_def db_2_def db_1_def)

section \<open>Starting a chat\<close>

text \<open>
  C6, as the code has it: a start-chat request whose \<open>user_id\<close> is not in the
  \<open>users\<close> table leaves every table as it was; the answer is 404 for a non-zero
  \<open>user_id\<close> and 400 for the \<open>user_id\<close> 0, which the guard \<open>if not user_id\<close> takes
  for a missing one.
\<close>

theorem start_chat_unknown_user:
  assumes "u \<notin> users d"
  shows "start_chat e (Some u) d =
           (Inr (if u = 0 then (400, Error ''User ID is required'')
                 else (404, Error ''User not found'')), d)"
  using assms by (simp add: start_chat_def not_user_id_def select_user_def)

theorem start_chat_unknown_user_witness:
  "(8::int) \<notin> users db_1
   \<and> start_chat (env_ex 50 ''c2'' ''m4'' None) (Some 8) db_1
       = (Inr (404, Error ''User not found''), db_1)"
proof -
  have h: "(8::int) \<notin> users db_1" by (simp add: db_1_eq)
  show ?thesis using h start_chat_unknown_user [OF h, of "env_ex 50 ''c2'' ''m4'' None"] by simp
qed

text \<open>
  C6 as stated fails for the \<open>user_id\<close> 0: it is not in the \<open>users\<close> table of the
  example store, and the answer is 400, not 404.
\<close>

theorem start_chat_unknown_user_counterexample:
  "(0::int) \<notin> users db_0
   \<and> fst (start_chat (env_ex 10 ''c1'' ''m1'' None) (Some 0) db_0)
       = Inr (400, Error ''User ID is required'')"
  by (simp add: db_0_def start_chat_def not_user_id_def)

text \<open>
  C5, as the code has it: a start-chat request with a non-zero \<open>user_id\<close> that exists
  in the \<open>users\<close> table, served with UUIDs that are not yet keys of the two tables,
  is answered 200 and appends exactly one row to \<open>chats\<close> (title ``New Financial
  Chat'', active) and exactly one row to \<open>chat_messages\<close> (the greeting, not a user
  message); the chat's \<open>created_at\<close> and \<open>updated_at\<close> and the greeting's
  \<open>created_at\<close> are the one clock reading of the request. Nothing else changes. For
  the \<open>user_id\<close> 0 the answer is 400 and nothing is created, also when a user 0
  exists.
\<close>

theorem start_chat_creates:
  assumes "u \<in> users d"
    and "uuid_1 e \<notin> chat_id ` set (chats d)"
    and "uuid_2 e \<notin> message_id ` set (chat_messages d)"
  shows "start_chat e (Some u) d =
           (if u = 0 then (Inr (400, Error ''User ID is required''), d)
            else
              (Inr (200, Started (uuid_1 e) system_message),
               d\<lparr>chats := chats d @
                    [\<lparr>chat_id = uuid_1 e, user_id = u, title = ''New Financial Chat'',
                      created_at = now e, updated_at = now e, is_active = True\<rparr>],
                 chat_messages := chat_messages d @
                    [\<lparr>message_id = uuid_2 e, msg_chat_id = uuid_1 e, content = system_message,
                      is_user_message = False, msg_created_at = now e\<rparr>]\<rparr>))"
  using assms
  by (simp add: start_chat_def not_user_id_def select_user_def insert_chat_def insert_message_def)

theorem start_chat_creates_witness:
  "(7::int) \<in> users db_0
   \<and> uuid_1 (env_ex 10 ''c1'' ''m1'' None) \<notin> chat_id ` set (chats db_0)
   \<and> uuid_2 (env_ex 10 ''c1'' ''m1'' None) \<notin> message_id ` set (chat_messages db_0)
   \<and> start_chat (env_ex 10 ''c1'' ''m1'' None) (Some 7) db_0
       = (Inr (200, Started ''c1'' system_message),
          \<lparr>users = {7},
           chats = [\<lparr>chat_id = ''c1'', user_id = 7, title = ''New Financial Chat'',
                     created_at = 10, updated_at = 10, is_active = True\<rparr>],
           chat_messages = [\<lparr>message_id = ''m1'', msg_chat_id = ''c1'', content = system_message,
                     is_user_message = False, msg_created_at = 10\<rparr>]\<rparr>)"
  using start_chat_creates [of 7 db_0 "env_ex 10 ''c1'' ''m1'' None"]
  by (simp add: db_0_def env_ex_def)

text \<open>
  C5 as stated fails for a user whose id is 0: the user exists in the \<open>users\<close> table,
  the guard \<open>if not user_id\<close> answers 400 and no row is created.
\<close>

theorem start_chat_creates_counterexample:
  "(0::int) \<in> users db_zero
   \<and> start_chat (env_ex 10 ''c1'' ''m1'' None) (Some 0) db_zero
       = (Inr (400, Error ''User ID is required''), db_zero)"
  by (simp add: db_zero_def start_chat_def not_user_id_def)

section \<open>Sending a message\<close>

text \<open>
  C7, as the code has it: a message-send request for a chat that is missing, owned by
  another user or inactive leaves the store unchanged; it is answered 404 when it
  carries a non-empty message, and 400 when the message is missing or empty, since
  the message is checked before the chat is looked up.
\<close>

theorem send_message_no_chat:
  assumes "\<forall>c\<in>set (chats d). chat_id c = cid \<longrightarrow> uid \<noteq> Some (user_id c) \<or> \<not> is_active c"
  shows "send_message e cid uid msg d =
           (Inr (if not_message msg then (400, Error ''Message is required'')
                 else (404, Error ''Chat not found or inactive'')), d)"
proof -
  have "select_active_chat d cid uid = None"
    using assms by (simp add: select_active_chat_None)
  then show ?thesis by (simp add: send_message_def)
qed

theorem send_message_no_chat_witness:
  "map chat_id (chats db_3) = [''c1''] \<and> map is_active (chats db_3) = [False]
   \<and> send_message (env_ex 50 ''m4'' ''m5'' None) ''c1'' (Some 7) (Some ''more'') db_3
       = (Inr (404, Error ''Chat not found or inactive''), db_3)"
proof -
  have h: "\<forall>c\<in>set (chats db_3). chat_id c = ''c1'' \<longrightarrow> Some 7 \<noteq> Some (user_id c) \<or> \<not> is_active c"
    by (simp add: db_3_eq)
  show ?thesis
    using send_message_no_chat [OF h, of "env_ex 50 ''m4'' ''m5'' None" "Some ''more''"]
    by (simp add: not_message_def db_3_eq)
qed

text \<open>
  C7 as stated fails for an empty message: the chat \<open>c1\<close> of the example store is
  inactive, and the answer is 400, not 404.
\<close>

theorem send_message_no_chat_counterexample:
  "\<not> is_active (hd (chats db_3)) \<and> map chat_id (chats db_3) = [''c1'']
   \<and> fst (send_message (env_ex 50 ''m4'' ''m5'' None) ''c1'' (Some 7) (Some []) db_3)
       = Inr (400, Error ''Message is required'')"
  by (simp add: db_3_eq db_2_eq send_message_def not_message_def)

text \<open>
  C1, as the code has it: a non-empty message posted to an existing, owned, active
  chat, served with two new and distinct UUIDs, is answered 200 and appends exactly
  two rows to \<open>chat_messages\<close>, the user's message and then the assistant's reply;
  the chat's \<open>updated_at\<close> becomes the clock reading of the request, which is also the
  \<open>created_at\<close> of both rows. No other row is inserted or modified. The new
  \<open>updated_at\<close> is later than the old one exactly when the clock reading is.
\<close>

theorem send_message_exchange:
  assumes "c \<in> set (chats d)" "chat_id c = cid" "user_id c = u" "is_active c"
    and "msg \<noteq> []"
    and "uuid_1 e \<notin> message_id ` set (chat_messages d)"
    and "uuid_2 e \<notin> message_id ` set (chat_messages d)"
    and "uuid_1 e \<noteq> uuid_2 e"
  shows "\<exists>reply. send_message e cid (Some u) (Some msg) d =
           (Inr (200, Reply (uuid_2 e) reply),
            d\<lparr>chat_messages := chat_messages d @
                 [\<lparr>message_id = uuid_1 e, msg_chat_id = cid, content = msg,
                   is_user_message = True, msg_created_at = now e\<rparr>,
                  \<lparr>message_id = uuid_2 e, msg_chat_id = cid, content = reply,
                   is_user_message = False, msg_created_at = now e\<rparr>],
              chats := map (\<lambda>c. if chat_id c = cid then c\<lparr>updated_at := now e\<rparr> else c) (chats d)\<rparr>)"
proof -
  obtain c' where sel: "select_active_chat d cid (Some u) = Some c'"
    using select_active_chat_Some[OF assms(1-4)] by blast
  have ref: "cid \<in> chat_id ` set (chats d)"
    using assms(1,2) by auto
  show ?thesis
    using sel ref assms(5-8)
    by (simp add: send_message_def not_message_def insert_message_def Let_def
        update_chat_timestamp_def)
qed

theorem send_message_exchange_witness:
  "hd (chats db_1) \<in> set (chats db_1) \<and> chat_id (hd (chats db_1)) = ''c1''
   \<and> user_id (hd (chats db_1)) = 7 \<and> is_active (hd (chats db_1)) \<and> ''hi'' \<noteq> []
   \<and> uuid_1 (env_ex 20 ''m2'' ''m3'' (Some ''ok'')) \<notin> message_id ` set (chat_messages db_1)
   \<and> uuid_2 (env_ex 20 ''m2'' ''m3'' (Some ''ok'')) \<notin> message_id ` set (chat_messages db_1)
   \<and> uuid_1 (env_ex 20 ''m2'' ''m3'' (Some ''ok'')) \<noteq> uuid_2 (env_ex 20 ''m2'' ''m3'' (Some ''ok''))
   \<and> (\<exists>reply. send_message (env_ex 20 ''m2'' ''m3'' (Some ''ok'')) ''c1'' (Some 7) (Some ''hi'') db_1 =
           (Inr (200, Reply ''m3'' reply),
            db_1\<lparr>chat_messages := chat_messages db_1 @
                 [\<lparr>message_id = ''m2'', msg_chat_id = ''c1'', content = ''hi'',
                   is_user_message = True, msg_created_at = 20\<rparr>,
                  \<lparr>message_id = ''m3'', msg_chat_id = ''c1'', content = reply,
                   is_user_message = False, msg_created_at = 20\<rparr>],
              chats := map (\<lambda>c. if chat_id c = ''c1'' then c\<lparr>updated_at := 20\<rparr> else c) (chats db_1)\<rparr>))"
  using send_message_exchange [of "hd (chats db_1)" db_1 "''c1''" 7 "''hi''" "env_ex 20 ''m2'' ''m3'' (Some ''ok'')"]
  by (simp add: db_1_eq env_ex_def)

text \<open>
  C1 as stated fails when the clock reading of the request is not later than the
  stored \<open>updated_at\<close>: the handler writes its reading without comparing. Here the
  chat was last updated at 20 and the request is served by a clock that reads 15.
\<close>

theorem send_message_exchange_counterexample:
  "chats db_2 = [\<lparr>chat_id = ''c1'', user_id = 7, title = ''New Financial Chat'',
                  created_at = 10, updated_at = 20, is_active = True\<rparr>]
   \<and> send_message (env_ex 15 ''m4'' ''m5'' (Some ''sure'')) ''c1'' (Some 7) (Some ''more'') db_2
       = (Inr (200, Reply ''m5'' ''sure''),
          db_2\<lparr>chat_messages := chat_messages db_2 @
                 [\<lparr>message_id = ''m4'', msg_chat_id = ''c1'', content = ''more'',
                   is_user_message = True, msg_created_at = 15\<rparr>,
                  \<lparr>message_id = ''m5'', msg_chat_id = ''c1'', content = ''sure'',
                   is_user_message = False, msg_created_at = 15\<rparr>],
                chats := [\<lparr>chat_id = ''c1'', user_id = 7, title = ''New Financial Chat'',
                  created_at = 10, updated_at = 15, is_active = True\<rparr>]\<rparr>)
   \<and> \<not> (20::nat) < 15"
  by (simp add: db_2_eq env_ex_def send_message_def not_message_def
      select_active_chat_def sql_eq_def fetchone_def insert_message_def Let_def
      update_chat_timestamp_def)

text \<open>
  C2: when the completion call of a message-send on an existing, owned, active chat
  raises, the request is still answered 200, and the assistant message that is stored
  and returned is the fixed fallback string. (The two generated UUIDs are new and
  distinct, as UUIDs are.)
\<close>

theorem send_message_completion_failure:
  assumes "c \<in> set (chats d)" "chat_id c = cid" "user_id c = u" "is_active c"
    and "msg \<noteq> []"
    and "uuid_1 e \<notin> message_id ` set (chat_messages d)"
    and "uuid_2 e \<notin> message_id ` set (chat_messages d)"
    and "uuid_1 e \<noteq> uuid_2 e"
    and "complete e (formatted_messages (user_data e (Some u))
           (select_context e
              (d\<lparr>chat_messages := chat_messages d @
                   [\<lparr>message_id = uuid_1 e, msg_chat_id = cid, content = msg,
                     is_user_message = True, msg_created_at = now e\<rparr>]\<rparr>) cid)) = None"
  shows "send_message e cid (Some u) (Some msg) d =
           (Inr (200, Reply (uuid_2 e) fallback_response),
            d\<lparr>chat_messages := chat_messages d @
                 [\<lparr>message_id = uuid_1 e, msg_chat_id = cid, content = msg,
                   is_user_message = True, msg_created_at = now e\<rparr>,
                  \<lparr>message_id = uuid_2 e, msg_chat_id = cid, content = fallback_response,
                   is_user_message = False, msg_created_at = now e\<rparr>],
              chats := map (\<lambda>c. if chat_id c = cid then c\<lparr>updated_at := now e\<rparr> else c) (chats d)\<rparr>)
         \<and> fallback_response =
             ''I'' @ [CHR 0x27] @ ''m sorry, I'' @ [CHR 0x27]
               @ ''m having trouble processing your request right now. Please try again later.''"
proof -
  obtain c' where sel: "select_active_chat d cid (Some u) = Some c'"
    using select_active_chat_Some[OF assms(1-4)] by blast
  have ref: "cid \<in> chat_id ` set (chats d)"
    using assms(1,2) by auto
  show ?thesis
    using sel ref assms(5-9)
    by (simp add: send_message_def not_message_def insert_message_def Let_def
        update_chat_timestamp_def fallback_response_def)
qed

theorem send_message_completion_failure_witness:
  "hd (chats db_1) \<in> set (chats db_1) \<and> chat_id (hd (chats db_1)) = ''c1''
   \<and> user_id (hd (chats db_1)) = 7 \<and> is_active (hd (chats db_1)) \<and> ''hi'' \<noteq> []
   \<and> uuid_1 (env_ex 20 ''m2'' ''m3'' None) \<notin> message_id ` set (chat_messages db_1)
   \<and> uuid_2 (env_ex 20 ''m2'' ''m3'' None) \<notin> message_id ` set (chat_messages db_1)
   \<and> uuid_1 (env_ex 20 ''m2'' ''m3'' None) \<noteq> uuid_2 (env_ex 20 ''m2'' ''m3'' None)
   \<and> complete (env_ex 20 ''m2'' ''m3'' None)
        (formatted_messages (user_data (env_ex 20 ''m2'' ''m3'' None) (Some 7))
           (select_context (env_ex 20 ''m2'' ''m3'' None)
              (db_1\<lparr>chat_messages := chat_messages db_1 @
                   [\<lparr>message_id = ''m2'', msg_chat_id = ''c1'', content = ''hi'',
                     is_user_message = True, msg_created_at = 20\<rparr>]\<rparr>) ''c1'')) = None
   \<and> send_message (env_ex 20 ''m2'' ''m3'' None) ''c1'' (Some 7) (Some ''hi'') db_1 =
           (Inr (200, Reply ''m3'' fallback_response),
            db_1\<lparr>chat_messages := chat_messages db_1 @
                 [\<lparr>message_id = ''m2'', msg_chat_id = ''c1'', content = ''hi'',
                   is_user_message = True, msg_created_at = 20\<rparr>,
                  \<lparr>message_id = ''m3'', msg_chat_id = ''c1'', content = fallback_response,
                   is_user_message = False, msg_created_at = 20\<rparr>],
              chats := map (\<lambda>c. if chat_id c = ''c1'' then c\<lparr>updated_at := 20\<rparr> else c) (chats db_1)\<rparr>)"
  using send_message_completion_failure
    [of "hd (chats db_1)" db_1 "''c1''" 7 "''hi''" "env_ex 20 ''m2'' ''m3'' None"]
  by (simp add: db_1_eq env_ex_def)

section \<open>Ending a chat\<close>

text \<open>
  C8: ending a chat that is missing, not owned by the caller or already inactive is
  answered 404 and changes nothing; ending an active, owned chat is answered 200 and
  sets \<open>is_active\<close> to false (and \<open>updated_at\<close> to the clock reading), after which the
  chat is inactive and every further end-call on it, by whatever caller, is answered
  404 and changes nothing. A second end-call by the same caller is answered 404 and
  changes nothing in either case. No request, and no sequence of requests, makes an
  inactive chat active again.
\<close>

theorem end_chat_idempotent:
  "((\<forall>c\<in>set (chats d). chat_id c = cid \<longrightarrow> uid \<noteq> Some (user_id c) \<or> \<not> is_active c) \<longrightarrow>
      end_chat e cid uid d = (Inr (404, Error ''Chat not found or already inactive''), d))
   \<and> ((\<exists>c\<in>set (chats d). chat_id c = cid \<and> uid = Some (user_id c) \<and> is_active c) \<longrightarrow>
      end_chat e cid uid d =
        (Inr (200, Ended),
         d\<lparr>chats := map (\<lambda>c. if chat_id c = cid then c\<lparr>is_active := False, updated_at := now e\<rparr>
                              else c) (chats d)\<rparr>)
      \<and> chat_inactive (snd (end_chat e cid uid d)) cid
      \<and> (\<forall>e' uid'. end_chat e' cid uid' (snd (end_chat e cid uid d))
            = (Inr (404, Error ''Chat not found or already inactive''), snd (end_chat e cid uid d))))
   \<and> end_chat e' cid uid (snd (end_chat e cid uid d))
        = (Inr (404, Error ''Chat not found or already inactive''), snd (end_chat e cid uid d))
   \<and> (chat_inactive d cid \<longrightarrow> chat_inactive (snd (handle e r d)) cid)
   \<and> (chat_inactive d cid \<longrightarrow> chat_inactive (run steps d) cid)"
proof (intro conjI impI)
  assume "\<forall>c\<in>set (chats d). chat_id c = cid \<longrightarrow> uid \<noteq> Some (user_id c) \<or> \<not> is_active c"
  then show "end_chat e cid uid d = (Inr (404, Error ''Chat not found or already inactive''), d)"
    by (simp add: end_chat_refused select_active_chat_None)
next
  assume a: "\<exists>c\<in>set (chats d). chat_id c = cid \<and> uid = Some (user_id c) \<and> is_active c"
  then obtain c where c: "c \<in> set (chats d)" "chat_id c = cid" "uid = Some (user_id c)" "is_active c"
    by blast
  show acc: "end_chat e cid uid d =
        (Inr (200, Ended),
         d\<lparr>chats := map (\<lambda>c. if chat_id c = cid then c\<lparr>is_active := False, updated_at := now e\<rparr>
                              else c) (chats d)\<rparr>)"
    using end_chat_accepted[OF c(1,2) refl c(4)] c(3) by simp
  show ina: "chat_inactive (snd (end_chat e cid uid d)) cid"
    using acc chat_inactive_after_update[OF c(1,2), of "now e"]
    by (simp add: update_chat_inactive_def)
  show "\<forall>e' uid'. end_chat e' cid uid' (snd (end_chat e cid uid d))
            = (Inr (404, Error ''Chat not found or already inactive''), snd (end_chat e cid uid d))"
    using ina by (simp add: end_chat_refused select_active_chat_inactive)
next
  show "end_chat e' cid uid (snd (end_chat e cid uid d))
        = (Inr (404, Error ''Chat not found or already inactive''), snd (end_chat e cid uid d))"
  proof (cases "select_active_chat d cid uid")
    case None
    then show ?thesis by (simp add: end_chat_refused)
  next
    case (Some c)
    then have c: "c \<in> set (chats d)" "chat_id c = cid"
      by (auto dest: select_active_chat_SomeD)
    have "snd (end_chat e cid uid d) = update_chat_inactive (now e) cid d"
      using Some by (simp add: end_chat_def)
    then have "chat_inactive (snd (end_chat e cid uid d)) cid"
      using chat_inactive_after_update[OF c] by simp
    then show ?thesis by (simp add: end_chat_refused select_active_chat_inactive)
  qed
next
  assume "chat_inactive d cid"
  then show "chat_inactive (snd (handle e r d)) cid" by (rule handle_chat_inactive)
next
  assume "chat_inactive d cid"
  then show "chat_inactive (run steps d) cid" by (rule run_chat_inactive)
qed

theorem end_chat_idempotent_witness:
  "(\<exists>c\<in>set (chats db_2). chat_id c = ''c1'' \<and> Some 7 = Some (user_id c) \<and> is_active c)
   \<and> end_chat (env_ex 30 [] [] None) ''c1'' (Some 7) db_2 = (Inr (200, Ended), db_3)
   \<and> chat_inactive db_3 ''c1''
   \<and> end_chat (env_ex 31 [] [] None) ''c1'' (Some 7) db_3
        = (Inr (404, Error ''Chat not found or already inactive''), db_3)
   \<and> chat_inactive (snd (handle (env_ex 32 ''c1'' ''m9'' None) (StartChat (Some 7)) db_3)) ''c1''
   \<and> chat_inactive (run [(env_ex 32 ''c1'' ''m9'' None, StartChat (Some 7)),
                           (env_ex 33 ''m7'' ''m8'' None, SendMessage ''c1'' (Some 7) (Some ''hi''))] db_3) ''c1''"
proof -
  let ?steps = "[(env_ex 32 ''c1'' ''m9'' None, StartChat (Some 7)),
                 (env_ex 33 ''m7'' ''m8'' None, SendMessage ''c1'' (Some 7) (Some ''hi''))]"
  have a: "\<exists>c\<in>set (chats db_2). chat_id c = ''c1'' \<and> Some 7 = Some (user_id c) \<and> is_active c"
    by (simp add: db_2_eq)
  have b: "\<forall>c\<in>set (chats db_3). chat_id c = ''c1'' \<longrightarrow> Some 7 \<noteq> Some (user_id c) \<or> \<not> is_active c"
    by (simp add: db_3_eq db_2_eq)
  have c: "snd (end_chat (env_ex 30 [] [] None) ''c1'' (Some 7) db_2) = db_3"
    by (simp add: db_3_def)
  note A = end_chat_idempotent [where d = db_2 and cid = "''c1''" and uid = "Some 7"
      and e = "env_ex 30 [] [] None" and e' = "env_ex 31 [] [] None"
      and r = "StartChat (Some 7)" and steps = ?steps]
  note B = end_chat_idempotent [where d = db_3 and cid = "''c1''" and uid = "Some 7"
      and e = "env_ex 31 [] [] None" and e' = "env_ex 31 [] [] None"
      and r = "StartChat (Some 7)" and steps = ?steps]
  note C = end_chat_idempotent [where d = db_3 and cid = "''c1''" and uid = "Some 7"
      and e = "env_ex 32 ''c1'' ''m9'' None" and e' = "env_ex 31 [] [] None"
      and r = "StartChat (Some 7)" and steps = ?steps]
  note A2 = A [THEN conjunct2, THEN conjunct1, THEN mp, OF a]
  have ina: "chat_inactive db_3 ''c1''"
    using A2 [THEN conjunct2, THEN conjunct1] unfolding c .
  obtain x where x: "end_chat (env_ex 30 [] [] None) ''c1'' (Some 7) db_2 = (Inr (200, Ended), x)"
    using A2 [THEN conjunct1] by blast
  have "x = db_3" using c unfolding x by simp
  then have acc: "end_chat (env_ex 30 [] [] None) ''c1'' (Some 7) db_2 = (Inr (200, Ended), db_3)"
    using x by simp
  have ref: "end_chat (env_ex 31 [] [] None) ''c1'' (Some 7) db_3
        = (Inr (404, Error ''Chat not found or already inactive''), db_3)"
    using B [THEN conjunct1, THEN mp, OF b] .
  have h: "chat_inactive (snd (handle (env_ex 32 ''c1'' ''m9'' None) (StartChat (Some 7)) db_3)) ''c1''"
    using C [THEN conjunct2, THEN conjunct2, THEN conjunct2, THEN conjunct1, THEN mp, OF ina] .
  have r: "chat_inactive (run ?steps db_3) ''c1''"
    using C [THEN conjunct2, THEN conjunct2, THEN conjunct2, THEN conjunct2, THEN mp, OF ina] .
  show ?thesis
    by (intro conjI a ina acc ref h r)
qed

section \<open>Requests without a user id\<close>

text \<open>
  C10, as the code has it: a message-send or end-chat request whose body omits
  \<open>user_id\<close> or gives \<open>null\<close> (or gives 0, in a store where no chat belongs to a
  user 0, as in every store the handlers build) is never answered ``User ID is
  required'': the value goes into the ownership query, matches no chat, and the
  store is unchanged. The end-chat request is answered 404; the message-send request
  is answered 404 when it carries a non-empty message and 400 ``Message is required''
  otherwise. The presence of \<open>user_id\<close> is checked by start-chat and by the two GET
  handlers, which answer 400.
\<close>

theorem user_id_not_validated:
  assumes "uid = None \<or> (uid = Some 0 \<and> (\<forall>c\<in>set (chats d). user_id c \<noteq> 0))"
  shows "send_message e cid uid msg d =
           (Inr (if not_message msg then (400, Error ''Message is required'')
                 else (404, Error ''Chat not found or inactive'')), d)
         \<and> end_chat e cid uid d = (Inr (404, Error ''Chat not found or already inactive''), d)
         \<and> start_chat e uid d = (Inr (400, Error ''User ID is required''), d)
         \<and> get_user_chats e None d = (Inr (400, Error ''User ID is required''), d)
         \<and> get_chat_messages e cid None d = (Inr (400, Error ''User ID is required''), d)"
proof -
  have "select_active_chat d cid uid = None"
    using assms by (auto simp: select_active_chat_None)
  moreover have "not_user_id uid" using assms by (auto simp: not_user_id_def)
  ultimately show ?thesis
    by (simp add: send_message_refused end_chat_refused start_chat_def get_user_chats_def
        get_chat_messages_def)
qed

theorem user_id_not_validated_witness:
  "0 \<notin> user_id ` set (chats db_2)
   \<and> send_message (env_ex 50 ''m4'' ''m5'' None) ''c1'' None (Some ''more'') db_2
       = (Inr (404, Error ''Chat not found or inactive''), db_2)
   \<and> end_chat (env_ex 50 ''m4'' ''m5'' None) ''c1'' None db_2
       = (Inr (404, Error ''Chat not found or already inactive''), db_2)
   \<and> send_message (env_ex 50 ''m4'' ''m5'' None) ''c1'' (Some 0) (Some ''more'') db_2
       = (Inr (404, Error ''Chat not found or inactive''), db_2)
   \<and> end_chat (env_ex 50 ''m4'' ''m5'' None) ''c1'' (Some 0) db_2
       = (Inr (404, Error ''Chat not found or already inactive''), db_2)
   \<and> start_chat (env_ex 50 ''m4'' ''m5'' None) (Some 0) db_2
       = (Inr (400, Error ''User ID is required''), db_2)"
proof -
  have z: "\<forall>c\<in>set (chats db_2). user_id c \<noteq> 0" by (simp add: db_2_eq)
  show ?thesis
    using z
      user_id_not_validated [of None db_2 "env_ex 50 ''m4'' ''m5'' None" "''c1''" "Some ''more''"]
      user_id_not_validated [of "Some 0" db_2 "env_ex 50 ''m4'' ''m5'' None" "''c1''" "Some ''more''"]
    by (auto simp: not_message_def)
qed

text \<open>
  C10 as stated fails for a message-send request that omits the message as well: it
  is answered 400.
\<close>

theorem user_id_not_validated_counterexample:
  "send_message (env_ex 50 ''m4'' ''m5'' None) ''c1'' None None db_2
     = (Inr (400, Error ''Message is required''), db_2)"
  by (simp add: send_message_def not_message_def)

section \<open>Reading the history\<close>




section \<open>Listing the chats of a user\<close>




section \<open>Timestamps of the messages of a chat\<close>

text \<open>
  C3, as the code has it: in every store reached from one without messages by
  requests whose clock readings strictly increase, two messages with equal
  \<open>created_at\<close> are always the user message and the assistant reply that one
  message-send inserted, the one right after the other, in the same chat. So
  \<open>created_at\<close> orders the messages of a chat up to these pairs, and no further.
\<close>

theorem created_at_ties:
  assumes "chat_messages d = []"
    and "sorted_wrt (<) (map (\<lambda>s. now (fst s)) steps)"
  shows "ties_are_exchanges (chat_messages (run steps d))"
proof -
  have "ties_are_exchanges (chat_messages d)"
    using assms(1) by (simp add: ties_are_exchanges_def)
  moreover have "\<forall>m\<in>set (chat_messages d). msg_created_at m < 0"
    using assms(1) by simp
  ultimately show ?thesis
    using assms(2) by (rule run_ties) simp
qed

theorem created_at_ties_witness:
  "chat_messages db_0 = []
   \<and> map (\<lambda>s. now (fst s)) steps_ex = [10, 20]
   \<and> ties_are_exchanges (chat_messages (run steps_ex db_0))
   \<and> map (\<lambda>m. (msg_created_at m, is_user_message m)) (chat_messages (run steps_ex db_0))
       = [(10, False), (20, True), (20, False)]"
proof -
  have a: "chat_messages db_0 = []" by (simp add: db_0_def)
  have b: "map (\<lambda>s. now (fst s)) steps_ex = [10, 20]"
    by (simp add: steps_ex_def env_ex_def)
  have c: "sorted_wrt (<) (map (\<lambda>s. now (fst s)) steps_ex)"
    unfolding b by simp
  show ?thesis
    using a b created_at_ties [OF a c] by (simp add: run_steps_ex db_2_eq)
qed

text \<open>
  C3 as stated fails after the first message-send: the two messages \<open>m2\<close> and \<open>m3\<close>
  of the chat \<open>c1\<close> carry the same \<open>created_at\<close>.
\<close>

theorem created_at_ties_counterexample:
  "map message_id (chat_messages (run steps_ex db_0)) = [''m1'', ''m2'', ''m3'']
   \<and> map msg_chat_id (chat_messages (run steps_ex db_0)) = [''c1'', ''c1'', ''c1'']
   \<and> map msg_created_at (chat_messages (run steps_ex db_0)) = [10, 20, 20]"
  by (simp add: run_steps_ex db_2_eq)

end
